theory Spec2Isabelle
  imports Main
begin

section \<open>Machine arithmetic\<close>

text \<open>
  The sources under verification are the Connected Runtime Services of the 64-bit
  (aarch64) HotSpot build: \<^verbatim>\<open>uintx\<close> is an unsigned 64-bit integer. Values of that
  type are natural numbers here, and every operation of the source that can wrap is
  written with its reduction modulo \<open>2 ^ 64\<close>.
\<close>

definition uintx_add :: "nat \<Rightarrow> nat \<Rightarrow> nat" where
  "uintx_add a b = (a + b) mod 2 ^ 64"

definition uintx_sub :: "nat \<Rightarrow> nat \<Rightarrow> nat" where
  "uintx_sub a b = (a + 2 ^ 64 - b mod 2 ^ 64) mod 2 ^ 64"

text \<open>The cast \<^verbatim>\<open>(uintx)_num_committed\<close> of a \<^verbatim>\<open>jint\<close>: sign extension, then
  reinterpretation as unsigned.\<close>

definition uintx_of_jint :: "int \<Rightarrow> nat" where
  "uintx_of_jint i = nat (i mod 2 ^ 64)"

text \<open>
  Modelled from the spec: \<^verbatim>\<open>align_up\<close> of \<^verbatim>\<open>utilities/align.hpp\<close>, which is not among
  the sources. The spec has every bump of the cursor "rounded up to the alignment used by
  the bump allocator"; HotSpot computes \<^verbatim>\<open>(size + alignment - 1) & ~(alignment - 1)\<close> in
  \<^verbatim>\<open>uintx\<close>, which for the alignments used here (powers of two) is the value below.
\<close>

definition align_up :: "nat \<Rightarrow> nat \<Rightarrow> nat" where
  "align_up size_in_bytes alignment =
     (uintx_add size_in_bytes (alignment - 1) div alignment) * alignment"

text \<open>\<^verbatim>\<open>TLBManager::align = sizeof(intptr_t)\<close>.\<close>

definition align :: nat where
  "align = 8"

section \<open>CRSConcurrentLinkedList\<close>

text \<open>
  The intrusive list links items through their \<^verbatim>\<open>_next\<close> field, starting at
  \<^verbatim>\<open>_list\<close>. Its state is the chain of items reached from \<^verbatim>\<open>_list\<close>, head first; an
  item is named by its index in the array \<^verbatim>\<open>_buffers\<close> it lives in. The
  compare-and-swap retry loops and the park marker only serialise concurrent callers:
  each operation below is the effect of one call that ran to completion.
\<close>

type_synonym CRSConcurrentLinkedList = "nat list"

definition CRSList_add :: "nat \<Rightarrow> CRSConcurrentLinkedList \<Rightarrow> CRSConcurrentLinkedList" where
  "CRSList_add item l = item # l"

text \<open>\<^verbatim>\<open>add_items\<close> walks to the tail of the chain it is given and links the tail to the
  current head.\<close>

definition CRSList_add_items :: "nat list \<Rightarrow> CRSConcurrentLinkedList \<Rightarrow> CRSConcurrentLinkedList" where
  "CRSList_add_items items l = items @ l"

text \<open>\<^verbatim>\<open>remove\<close>: \<^verbatim>\<open>NULL\<close> on the empty list; otherwise \<^verbatim>\<open>_list = head->next()\<close>,
  \<^verbatim>\<open>head->set_next(NULL)\<close>, and the head is returned.\<close>

definition CRSList_remove :: "CRSConcurrentLinkedList \<Rightarrow> nat option \<times> CRSConcurrentLinkedList" where
  "CRSList_remove l = (case l of [] \<Rightarrow> (None, []) | head # rest \<Rightarrow> (Some head, rest))"

text \<open>The chain an item returned by \<^verbatim>\<open>remove\<close> still carries: \<^verbatim>\<open>set_next(NULL)\<close> has cut
  it off, so the returned chain is the item alone.\<close>

definition CRSList_removed_chain :: "CRSConcurrentLinkedList \<Rightarrow> nat list" where
  "CRSList_removed_chain l = (case fst (CRSList_remove l) of None \<Rightarrow> [] | Some head \<Rightarrow> [head])"

section \<open>Messages\<close>

datatype CrsMessageBackReferenceId = CRS_MESSAGE_BACK_REFERENCE_CLASS_LOAD

record CrsClassLoadMessage =
  cl_size :: nat
  loaderId :: int
  klass_id :: int
  has_hash :: bool
  has_original_hash :: bool
  has_source :: bool
  has_same_source :: bool
  original_hash :: "nat list"
  hash :: "nat list"
  klass_name_length :: nat
  klass_name :: string
  source_data :: string

record CrsFirstCallMessage =
  fc_size :: nat
  holder_id :: int
  method_name_sig :: string

datatype CrsMessage =
    CRS_MESSAGE_CLASS_LOAD CrsClassLoadMessage
  | CRS_MESSAGE_FIRST_CALL CrsFirstCallMessage

text \<open>\<^verbatim>\<open>CrsMessage::size()\<close>: the \<^verbatim>\<open>u2 _size\<close> of the header.\<close>

fun msg_size :: "CrsMessage \<Rightarrow> nat" where
  "msg_size (CRS_MESSAGE_CLASS_LOAD m) = cl_size m"
| "msg_size (CRS_MESSAGE_FIRST_CALL m) = fc_size m"

section \<open>TLB\<close>

text \<open>A thread is named by a number (its \<^verbatim>\<open>Thread*\<close>, never \<^verbatim>\<open>NULL\<close>); \<^verbatim>\<open>u1*\<close> pointers
  are addresses.\<close>

record TLB =
  pos :: nat
  base :: nat
  owner :: "nat option"
  reference_message :: "CrsMessageBackReferenceId \<Rightarrow> nat option"

definition TLB_lease :: "nat \<Rightarrow> TLB \<Rightarrow> TLB" where
  "TLB_lease thread t = t\<lparr>pos := 0, owner := Some thread, reference_message := (\<lambda>i. None)\<rparr>"

definition TLB_release :: "TLB \<Rightarrow> TLB" where
  "TLB_release t = t\<lparr>owner := None\<rparr>"

definition TLB_set_reference_message :: "CrsMessageBackReferenceId \<Rightarrow> nat option \<Rightarrow> TLB \<Rightarrow> TLB" where
  "TLB_set_reference_message back_ref_id message t =
     t\<lparr>reference_message := (reference_message t)(back_ref_id := message)\<rparr>"

definition TLB_alloc :: "nat \<Rightarrow> TLB \<Rightarrow> nat \<times> TLB" where
  "TLB_alloc size_in_bytes t =
     (base t + pos t, t\<lparr>pos := uintx_add (pos t) (align_up size_in_bytes align)\<rparr>)"

section \<open>TLBManager\<close>

text \<open>
  \<^verbatim>\<open>_buffers\<close> is the array of buffers, \<^verbatim>\<open>rs_base\<close> and \<^verbatim>\<open>rs_size\<close> are \<^verbatim>\<open>_rs.base()\<close> and
  \<^verbatim>\<open>_rs.size()\<close>, and \<^verbatim>\<open>rs_mem\<close> is the content of the reserved space: the message object
  that placement-new has constructed at an address, if any.
\<close>

record TLBManager =
  free_list :: CRSConcurrentLinkedList
  leased_list :: CRSConcurrentLinkedList
  uncommitted_list :: CRSConcurrentLinkedList
  buffers :: "nat \<Rightarrow> TLB"
  rs_base :: nat
  rs_size :: nat
  rs_mem :: "nat \<Rightarrow> CrsMessage option"
  buffer_size :: nat
  num_committed :: int
  buffers_count :: nat
  area_size :: nat
  bytes_used :: nat
  not_finished :: "nat list"

text \<open>The tail of \<^verbatim>\<open>lease_buffer\<close>, reached with a committed buffer in hand.\<close>

definition lease_buffer_finish :: "nat \<Rightarrow> nat \<Rightarrow> TLBManager \<Rightarrow> nat option \<times> TLBManager" where
  "lease_buffer_finish to_lease thread m =
     (Some to_lease,
      m\<lparr>buffers := (buffers m)(to_lease := TLB_lease thread (buffers m to_lease)),
        leased_list := CRSList_add to_lease (leased_list m),
        bytes_used := uintx_add (bytes_used m) (buffer_size m)\<rparr>)"

text \<open>\<open>commit_memory\<close> is what \<^verbatim>\<open>os::commit_memory\<close> answers if it is called.\<close>

definition lease_buffer :: "bool \<Rightarrow> nat \<Rightarrow> TLBManager \<Rightarrow> nat option \<times> TLBManager" where
  "lease_buffer commit_memory thread m =
     (case CRSList_remove (free_list m) of
        (Some to_lease, fl) \<Rightarrow> lease_buffer_finish to_lease thread (m\<lparr>free_list := fl\<rparr>)
      | (None, fl) \<Rightarrow>
          (case CRSList_remove (uncommitted_list m) of
             (Some to_lease, ul) \<Rightarrow>
               if \<not> commit_memory
               then (None, m\<lparr>free_list := fl, uncommitted_list := CRSList_add to_lease ul\<rparr>)
               else lease_buffer_finish to_lease thread
                      (m\<lparr>free_list := fl, uncommitted_list := ul,
                         num_committed := num_committed m + 1\<rparr>)
           | (None, ul) \<Rightarrow> (None, m\<lparr>free_list := fl, uncommitted_list := ul\<rparr>)))"

definition ensure :: "nat option \<Rightarrow> nat \<Rightarrow> nat \<Rightarrow> bool \<Rightarrow> TLBManager \<Rightarrow> nat option \<times> TLBManager" where
  "ensure buffer size_in_bytes thread commit_memory m =
     (case buffer of
        Some b \<Rightarrow>
          if size_in_bytes \<le> uintx_sub (buffer_size m) (pos (buffers m b)) then (Some b, m)
          else lease_buffer commit_memory thread
                 (m\<lparr>buffers := (buffers m)(b := TLB_release (buffers m b))\<rparr>)
      | None \<Rightarrow> lease_buffer commit_memory thread m)"

definition TLBManager_alloc :: "nat option \<Rightarrow> nat \<Rightarrow> TLBManager \<Rightarrow> nat option \<times> TLBManager" where
  "TLBManager_alloc buffer size_in_bytes m =
     (case buffer of
        None \<Rightarrow> (None, m)
      | Some b \<Rightarrow>
          (case TLB_alloc size_in_bytes (buffers m b) of
             (p, t) \<Rightarrow> (Some p, m\<lparr>buffers := (buffers m)(b := t)\<rparr>)))"

text \<open>\<open>uncommit_memory\<close> is what \<^verbatim>\<open>os::uncommit_memory\<close> answers; the second component is
  the chain \<^verbatim>\<open>*uncommitted_list\<close> of the caller.\<close>

definition uncommit_buffer :: "bool \<Rightarrow> nat \<Rightarrow> nat list \<Rightarrow> TLBManager \<Rightarrow> bool \<times> nat list \<times> TLBManager" where
  "uncommit_buffer uncommit_memory buffer uncommitted_chain m =
     (if uncommit_memory
      then (True, buffer # uncommitted_chain, m\<lparr>num_committed := num_committed m - 1\<rparr>)
      else (False, uncommitted_chain, m))"

section \<open>TLBManager::flush_buffers\<close>

text \<open>
  The locals of one call of \<^verbatim>\<open>flush_buffers\<close>: \<^verbatim>\<open>to_uncommit\<close>, the chain \<^verbatim>\<open>uncommitted\<close>,
  the manager and the state \<open>world\<close> that the closure \<^verbatim>\<open>f\<close> works on. \<^verbatim>\<open>os::uncommit_memory\<close>
  is the oracle \<open>uncommit_memory\<close>: its answer to the \<open>k\<close>-th call made by this flush, and
  \<open>os_calls\<close> counts the calls made so far. The counters \<^verbatim>\<open>count_leased\<close>,
  \<^verbatim>\<open>count_released\<close> and \<^verbatim>\<open>count_uncommitted\<close> feed only the \<^verbatim>\<open>DEBUG\<close> print and are left out.

  A closure \<^verbatim>\<open>TLBClosure::tlb_do\<close> reads the reserved space, may update the buffer it is
  given and changes its own world; \<open>None\<close> is a call that does not return.
\<close>

record 'w flush_frame =
  to_uncommit :: nat
  uncommitted :: "nat list"
  os_calls :: nat
  mgr :: TLBManager
  world :: 'w

type_synonym 'w TLBClosure = "(nat \<Rightarrow> CrsMessage option) \<Rightarrow> TLB \<Rightarrow> 'w \<Rightarrow> (TLB \<times> 'w) option"

datatype 'a loop_step = Continue (frame_of: 'a) | Break (frame_of: 'a) | Stuck

text \<open>One pass through the body of the \<^verbatim>\<open>do ... while (true)\<close> loop over \<^verbatim>\<open>_leased_list\<close>.\<close>

definition flush_leased_step ::
  "'w TLBClosure \<Rightarrow> (nat \<Rightarrow> bool) \<Rightarrow> 'w flush_frame \<Rightarrow> 'w flush_frame loop_step" where
  "flush_leased_step f uncommit_memory fr =
     (case CRSList_remove (leased_list (mgr fr)) of
        (None, ll) \<Rightarrow> Break fr
      | (Some to_flush, ll) \<Rightarrow>
          (let m1 = (mgr fr)\<lparr>leased_list := ll\<rparr> in
           case owner (buffers m1 to_flush) of
             Some thread \<Rightarrow>
               Continue (fr\<lparr>mgr := m1\<lparr>not_finished := to_flush # not_finished m1\<rparr>\<rparr>)
           | None \<Rightarrow>
               (case f (rs_mem m1) (buffers m1 to_flush) (world fr) of
                  None \<Rightarrow> Stuck
                | Some (t, w) \<Rightarrow>
                    (let m2 = m1\<lparr>buffers := (buffers m1)(to_flush := t),
                                 bytes_used := uintx_sub (bytes_used m1) (buffer_size m1)\<rparr> in
                     if to_uncommit fr \<noteq> 0
                     then (case uncommit_buffer (uncommit_memory (os_calls fr)) to_flush
                                  (uncommitted fr) m2 of
                             (True, u, m3) \<Rightarrow>
                               Continue (fr\<lparr>to_uncommit := to_uncommit fr - 1, uncommitted := u,
                                            os_calls := os_calls fr + 1, mgr := m3, world := w\<rparr>)
                           | (False, u, m3) \<Rightarrow>
                               Continue (fr\<lparr>uncommitted := u, os_calls := os_calls fr + 1,
                                            mgr := m3\<lparr>free_list := CRSList_add to_flush (free_list m3)\<rparr>,
                                            world := w\<rparr>))
                     else Continue (fr\<lparr>mgr := m2\<lparr>free_list := CRSList_add to_flush (free_list m2)\<rparr>,
                                        world := w\<rparr>)))))"

lemma flush_leased_step_decreases:
  "flush_leased_step f u fr = Continue fr' \<Longrightarrow>
     length (leased_list (mgr fr')) < length (leased_list (mgr fr))"
  by (auto simp: flush_leased_step_def CRSList_remove_def CRSList_add_def uncommit_buffer_def Let_def
           split: list.splits option.splits prod.splits if_splits bool.splits)

function flush_leased_loop ::
  "'w TLBClosure \<Rightarrow> (nat \<Rightarrow> bool) \<Rightarrow> 'w flush_frame \<Rightarrow> 'w flush_frame option" where
  "flush_leased_loop f uncommit_memory fr =
     (case flush_leased_step f uncommit_memory fr of
        Break fr' \<Rightarrow> Some fr'
      | Continue fr' \<Rightarrow> flush_leased_loop f uncommit_memory fr'
      | Stuck \<Rightarrow> None)"
  by pat_completeness auto
termination
  by (relation "measure (\<lambda>(f, u, fr). length (leased_list (mgr fr)))")
     (auto dest: flush_leased_step_decreases)

declare flush_leased_loop.simps [simp del]

text \<open>\<^verbatim>\<open>if (_not_finished) { _leased_list.add_items(_not_finished); _not_finished = NULL; }\<close>\<close>

definition return_not_finished :: "'w flush_frame \<Rightarrow> 'w flush_frame" where
  "return_not_finished fr =
     (if not_finished (mgr fr) \<noteq> []
      then fr\<lparr>mgr := (mgr fr)\<lparr>leased_list := CRSList_add_items (not_finished (mgr fr)) (leased_list (mgr fr)),
                              not_finished := []\<rparr>\<rparr>
      else fr)"

text \<open>One pass through \<^verbatim>\<open>while (to_uncommit) { ... }\<close> over the idle buffers of
  \<^verbatim>\<open>_free_list\<close>. When \<^verbatim>\<open>uncommit_buffer\<close> fails the loop is left by \<^verbatim>\<open>break\<close> with the
  buffer \<^verbatim>\<open>b\<close> already taken off \<^verbatim>\<open>_free_list\<close>.\<close>

definition flush_idle_step :: "(nat \<Rightarrow> bool) \<Rightarrow> 'w flush_frame \<Rightarrow> 'w flush_frame loop_step" where
  "flush_idle_step uncommit_memory fr =
     (if to_uncommit fr = 0 then Break fr
      else (case CRSList_remove (free_list (mgr fr)) of
              (None, fl) \<Rightarrow> Break fr
            | (Some b, fl) \<Rightarrow>
                (case uncommit_buffer (uncommit_memory (os_calls fr)) b (uncommitted fr)
                        ((mgr fr)\<lparr>free_list := fl\<rparr>) of
                   (True, u, m) \<Rightarrow>
                     Continue (fr\<lparr>to_uncommit := to_uncommit fr - 1, uncommitted := u,
                                  os_calls := os_calls fr + 1, mgr := m\<rparr>)
                 | (False, u, m) \<Rightarrow>
                     Break (fr\<lparr>uncommitted := u, os_calls := os_calls fr + 1, mgr := m\<rparr>))))"

lemma flush_idle_step_decreases:
  "flush_idle_step u fr = Continue fr' \<Longrightarrow> to_uncommit fr' < to_uncommit fr"
  by (auto simp: flush_idle_step_def CRSList_remove_def uncommit_buffer_def
           split: list.splits option.splits prod.splits if_splits bool.splits)

lemma flush_idle_step_not_Stuck: "flush_idle_step u fr \<noteq> Stuck"
  by (auto simp: flush_idle_step_def CRSList_remove_def uncommit_buffer_def
           split: list.splits option.splits prod.splits if_splits bool.splits)

function flush_idle_loop :: "(nat \<Rightarrow> bool) \<Rightarrow> 'w flush_frame \<Rightarrow> 'w flush_frame" where
  "flush_idle_loop uncommit_memory fr =
     (case flush_idle_step uncommit_memory fr of
        Break fr' \<Rightarrow> fr'
      | Continue fr' \<Rightarrow> flush_idle_loop uncommit_memory fr'
      | Stuck \<Rightarrow> fr)"
  by pat_completeness auto
termination
  by (relation "measure (\<lambda>(u, fr). to_uncommit fr)") (auto dest: flush_idle_step_decreases)

declare flush_idle_loop.simps [simp del]

text \<open>\<^verbatim>\<open>if (uncommitted) _uncommitted_list.add_items(uncommitted);\<close>\<close>

definition return_uncommitted :: "'w flush_frame \<Rightarrow> 'w flush_frame" where
  "return_uncommitted fr =
     (if uncommitted fr \<noteq> []
      then fr\<lparr>mgr := (mgr fr)\<lparr>uncommitted_list :=
                                CRSList_add_items (uncommitted fr) (uncommitted_list (mgr fr))\<rparr>\<rparr>
      else fr)"

text \<open>The frame at the entry of the first loop: \<^verbatim>\<open>committed_goal /= _buffer_size\<close> and the
  quota \<^verbatim>\<open>to_uncommit\<close>. (\<^verbatim>\<open>_buffer_size\<close> is never 0 in a constructed manager: the
  constructor divides by it.)\<close>

definition flush_enter :: "nat \<Rightarrow> TLBManager \<Rightarrow> 'w \<Rightarrow> 'w flush_frame" where
  "flush_enter committed_goal m w =
     (let goal = committed_goal div buffer_size m;
          committed = uintx_of_jint (num_committed m)
      in \<lparr>to_uncommit = (if goal < committed then uintx_sub committed goal else 0),
          uncommitted = [], os_calls = 0, mgr = m, world = w\<rparr>)"

definition flush_buffers ::
  "'w TLBClosure \<Rightarrow> nat \<Rightarrow> (nat \<Rightarrow> bool) \<Rightarrow> TLBManager \<Rightarrow> 'w \<Rightarrow> (TLBManager \<times> 'w) option" where
  "flush_buffers f committed_goal uncommit_memory m w =
     (case flush_leased_loop f uncommit_memory (flush_enter committed_goal m w) of
        None \<Rightarrow> None
      | Some fr1 \<Rightarrow>
          (let fr = return_uncommitted
                      (flush_idle_loop uncommit_memory (return_not_finished fr1))
           in Some (mgr fr, world fr)))"

section \<open>Processing messages\<close>

text \<open>
  The managed layer is seen through the static calls made into it. A call that raises has
  its exception cleared at once, so a call leaves nothing behind but its place in the
  sequence of calls. \<open>has_callback\<close> are the flags \<^verbatim>\<open>_has_callback\<close> of the two message
  classes.
\<close>

datatype java_call =
    notifyClassLoad string "nat list option" "nat list option" int int "string option"
  | notifyFirstCall int string

record managed_layer =
  class_load_has_callback :: bool
  first_call_has_callback :: bool
  java_calls :: "java_call list"

text \<open>The class-load message at an address, as \<^verbatim>\<open>(CrsClassLoadMessage*)\<close> reads it.\<close>

definition class_load_at :: "(nat \<Rightarrow> CrsMessage option) \<Rightarrow> nat \<Rightarrow> CrsClassLoadMessage option" where
  "class_load_at mem p =
     (case mem p of Some (CRS_MESSAGE_CLASS_LOAD m) \<Rightarrow> Some m | _ \<Rightarrow> None)"

text \<open>\<^verbatim>\<open>CrsClassLoadMessage::process\<close>; \<open>this\<close> is the address of the message. With
  \<^verbatim>\<open>has_same_source\<close> the source is read through the buffer's reference message; the
  source asserts that reference to be there, and the model does not go on without it.\<close>

definition CrsClassLoadMessage_process ::
  "(nat \<Rightarrow> CrsMessage option) \<Rightarrow> nat \<Rightarrow> CrsClassLoadMessage \<Rightarrow> TLB \<Rightarrow> managed_layer
     \<Rightarrow> (TLB \<times> managed_layer) option" where
  "CrsClassLoadMessage_process mem this msg tlb w =
     (let found =
            (if has_source msg
             then Some (Some (source_data msg),
                        TLB_set_reference_message CRS_MESSAGE_BACK_REFERENCE_CLASS_LOAD (Some this) tlb)
             else if has_same_source msg
             then (case reference_message tlb CRS_MESSAGE_BACK_REFERENCE_CLASS_LOAD of
                     None \<Rightarrow> None
                   | Some r \<Rightarrow>
                       (case class_load_at mem r of
                          None \<Rightarrow> None
                        | Some ref \<Rightarrow> Some (Some (source_data ref), tlb)))
             else Some (None, tlb))
      in case found of
           None \<Rightarrow> None
         | Some (source_handle, tlb1) \<Rightarrow>
             if \<not> class_load_has_callback w then Some (tlb1, w)
             else Some (tlb1,
                        w\<lparr>java_calls := java_calls w @
                             [notifyClassLoad (klass_name msg)
                                (if has_original_hash msg then Some (original_hash msg) else None)
                                (if has_hash msg then Some (hash msg) else None)
                                (klass_id msg) (loaderId msg) source_handle]\<rparr>))"

definition CrsFirstCallMessage_process :: "CrsFirstCallMessage \<Rightarrow> managed_layer \<Rightarrow> managed_layer" where
  "CrsFirstCallMessage_process msg w =
     (if \<not> first_call_has_callback w then w
      else w\<lparr>java_calls := java_calls w @ [notifyFirstCall (holder_id msg) (method_name_sig msg)]\<rparr>)"

text \<open>\<^verbatim>\<open>CrsMessage::process\<close>, which is \<^verbatim>\<open>TLBFlushClosure::message_do\<close>.\<close>

fun CrsMessage_process ::
  "(nat \<Rightarrow> CrsMessage option) \<Rightarrow> nat \<Rightarrow> CrsMessage \<Rightarrow> TLB \<Rightarrow> managed_layer
     \<Rightarrow> (TLB \<times> managed_layer) option" where
  "CrsMessage_process mem this (CRS_MESSAGE_CLASS_LOAD msg) tlb w =
     CrsClassLoadMessage_process mem this msg tlb w"
| "CrsMessage_process mem this (CRS_MESSAGE_FIRST_CALL msg) tlb w =
     Some (tlb, CrsFirstCallMessage_process msg w)"

text \<open>
  The loop of \<^verbatim>\<open>MessageClosure::tlb_do\<close>, from \<open>p\<close> up to \<open>f = base + pos\<close>. Where no message
  object lies at \<open>p\<close> the source reads indeterminate bytes, and where the size read there
  rounds to 0 the source does not advance and never leaves the loop: in both cases the
  walk has no result.
\<close>

function MessageClosure_walk ::
  "(nat \<Rightarrow> CrsMessage option) \<Rightarrow> nat \<Rightarrow> nat \<Rightarrow> TLB \<Rightarrow> managed_layer \<Rightarrow> (TLB \<times> managed_layer) option" where
  "MessageClosure_walk mem p f tlb w =
     (if p < f
      then (case mem p of
              None \<Rightarrow> None
            | Some msg \<Rightarrow>
                if align_up (msg_size msg) align = 0 then None
                else (case CrsMessage_process mem p msg tlb w of
                        None \<Rightarrow> None
                      | Some (tlb1, w1) \<Rightarrow>
                          MessageClosure_walk mem (p + align_up (msg_size msg) align) f tlb1 w1))
      else Some (tlb, w))"
  by pat_completeness auto
termination
  by (relation "measure (\<lambda>(mem, p, f, tlb, w). f - p)") auto

declare MessageClosure_walk.simps [simp del]

definition TLBFlushClosure_tlb_do :: "managed_layer TLBClosure" where
  "TLBFlushClosure_tlb_do mem tlb w = MessageClosure_walk mem (base tlb) (base tlb + pos tlb) tlb w"

section \<open>NativeMemory\<close>

record NativeMemory =
  tlb_manager :: TLBManager
  previous_usage :: nat
  overflow :: bool

text \<open>What \<^verbatim>\<open>tty\<close> is sent outside \<^verbatim>\<open>DEBUG\<close>: the report
  \<^verbatim>\<open>CRS native buffer overflow, data is lost [before->after]\<close>.\<close>

datatype tty_line = data_is_lost nat nat

text \<open>
  The state the event memory works in: the \<^verbatim>\<open>static NativeMemory *memory\<close>, the buffer
  each thread holds in its \<^verbatim>\<open>crs_thread_locals()\<close>, the managed layer and \<^verbatim>\<open>tty\<close>.
\<close>

record crs =
  memory :: NativeMemory
  thread_buffer :: "nat \<Rightarrow> nat option"
  managed :: managed_layer
  tty :: "tty_line list"

definition set_tlb_manager :: "TLBManager \<Rightarrow> crs \<Rightarrow> crs" where
  "set_tlb_manager m s = s\<lparr>memory := (memory s)\<lparr>tlb_manager := m\<rparr>\<rparr>"

text \<open>\<^verbatim>\<open>NativeMemory::alloc(back_ref_id, is_reference, size, size_reference, thread)\<close>; the
  result is the pointer and the value left in \<^verbatim>\<open>*is_reference\<close>.\<close>

definition NativeMemory_alloc_reference ::
  "CrsMessageBackReferenceId \<Rightarrow> bool \<Rightarrow> nat \<Rightarrow> nat \<Rightarrow> nat \<Rightarrow> bool \<Rightarrow> crs
     \<Rightarrow> (nat option \<times> bool) \<times> crs" where
  "NativeMemory_alloc_reference back_ref_id is_reference size_in_bytes size_reference thread
       commit_memory s =
     (if overflow (memory s) then ((None, is_reference), s)
      else
        (let buffer = thread_buffer s thread in
         case ensure buffer size_in_bytes thread commit_memory (tlb_manager (memory s)) of
           (new_buffer, m1) \<Rightarrow>
             (let s1 = set_tlb_manager m1 s;
                  s2 = (if new_buffer \<noteq> buffer
                        then s1\<lparr>thread_buffer := (thread_buffer s1)(thread := new_buffer)\<rparr>
                        else s1);
                  is_reference1 = (if new_buffer \<noteq> buffer then True else is_reference)
              in case new_buffer of
                   Some nb \<Rightarrow>
                     (case TLBManager_alloc new_buffer
                             (if is_reference1 then size_reference else size_in_bytes) m1 of
                        (message, m2) \<Rightarrow>
                          (let m3 = (if is_reference1
                                     then m2\<lparr>buffers := (buffers m2)
                                            (nb := TLB_set_reference_message back_ref_id message
                                                     (buffers m2 nb))\<rparr>
                                     else m2)
                           in ((message, is_reference1), set_tlb_manager m3 s2)))
                 | None \<Rightarrow>
                     ((None, is_reference1), s2\<lparr>memory := (memory s2)\<lparr>overflow := True\<rparr>\<rparr>))))"

text \<open>\<^verbatim>\<open>NativeMemory::alloc(size, thread)\<close>.\<close>

definition NativeMemory_alloc :: "nat \<Rightarrow> nat \<Rightarrow> bool \<Rightarrow> crs \<Rightarrow> nat option \<times> crs" where
  "NativeMemory_alloc size_in_bytes thread commit_memory s =
     (if overflow (memory s) then (None, s)
      else
        (let buffer = thread_buffer s thread in
         case ensure buffer size_in_bytes thread commit_memory (tlb_manager (memory s)) of
           (new_buffer, m1) \<Rightarrow>
             (let s1 = set_tlb_manager m1 s;
                  s2 = (if new_buffer \<noteq> buffer
                        then s1\<lparr>thread_buffer := (thread_buffer s1)(thread := new_buffer)\<rparr>
                        else s1)
              in case new_buffer of
                   Some nb \<Rightarrow>
                     (case TLBManager_alloc new_buffer size_in_bytes m1 of
                        (message, m2) \<Rightarrow> (message, set_tlb_manager m2 s2))
                 | None \<Rightarrow> (None, s2\<lparr>memory := (memory s2)\<lparr>overflow := True\<rparr>\<rparr>))))"

definition NativeMemory_reference_message :: "CrsMessageBackReferenceId \<Rightarrow> nat \<Rightarrow> crs \<Rightarrow> nat option" where
  "NativeMemory_reference_message ref_id thread s =
     (case thread_buffer s thread of
        None \<Rightarrow> None
      | Some buffer \<Rightarrow> reference_message (buffers (tlb_manager (memory s)) buffer) ref_id)"

definition NativeMemory_release_thread_buffer :: "nat \<Rightarrow> crs \<Rightarrow> crs" where
  "NativeMemory_release_thread_buffer thread s =
     (case thread_buffer s thread of
        None \<Rightarrow> s
      | Some buffer \<Rightarrow>
          (let m = tlb_manager (memory s) in
           (set_tlb_manager (m\<lparr>buffers := (buffers m)(buffer := TLB_release (buffers m buffer))\<rparr>) s)
             \<lparr>thread_buffer := (thread_buffer s)(thread := None)\<rparr>))"

text \<open>The committed-memory target \<^verbatim>\<open>next_target\<close> of \<^verbatim>\<open>NativeMemory::flush\<close>.\<close>

definition next_target :: "NativeMemory \<Rightarrow> nat" where
  "next_target nm = uintx_add (previous_usage nm) (bytes_used (tlb_manager nm)) div 2"

text \<open>\<^verbatim>\<open>NativeMemory::flush\<close>; \<open>None\<close> when the flush closure does not return.\<close>

definition NativeMemory_flush :: "(nat \<Rightarrow> bool) \<Rightarrow> crs \<Rightarrow> crs option" where
  "NativeMemory_flush uncommit_memory s =
     (let target = next_target (memory s);
          nm1 = (memory s)\<lparr>previous_usage := bytes_used (tlb_manager (memory s))\<rparr>;
          before = bytes_used (tlb_manager nm1)
      in case flush_buffers TLBFlushClosure_tlb_do target uncommit_memory
                (tlb_manager nm1) (managed s) of
           None \<Rightarrow> None
         | Some (m, w) \<Rightarrow>
             (let nm2 = nm1\<lparr>tlb_manager := m\<rparr> in
              if overflow nm2
              then Some (s\<lparr>memory := nm2\<lparr>overflow := False\<rparr>, managed := w,
                          tty := tty s @ [data_is_lost before (bytes_used (tlb_manager nm2))]\<rparr>)
              else Some (s\<lparr>memory := nm2, managed := w\<rparr>)))"

section \<open>Posting messages\<close>

text \<open>What a message needs of the class (\<^verbatim>\<open>instanceKlassHandle\<close>) and of the method it is
  about.\<close>

record klass_info =
  class_loader_trace_id :: int
  klass_trace_id :: int
  klass_symbol :: string

record method_info =
  method_holder_trace_id :: int
  method_symbol :: string
  signature_symbol :: string

text \<open>
  The constructor \<^verbatim>\<open>CrsClassLoadMessage(size, ikh, is_transformed, original_hash, hash,
  source, reference, klass_name_length)\<close>. A C string is the list of its characters before
  the terminating NUL, and a pointer that may be \<^verbatim>\<open>NULL\<close> is an option. \<^verbatim>\<open>_size\<close> is a
  \<^verbatim>\<open>u2\<close>. Fields the constructor does not write are left empty.
\<close>

definition CrsClassLoadMessage_new ::
  "nat \<Rightarrow> klass_info \<Rightarrow> bool \<Rightarrow> nat list option \<Rightarrow> nat list option \<Rightarrow> string option
     \<Rightarrow> nat option \<Rightarrow> nat \<Rightarrow> CrsClassLoadMessage" where
  "CrsClassLoadMessage_new size_in_bytes ikh is_transformed original_hash_in hash_in source
       reference name_length =
     \<lparr>cl_size = size_in_bytes mod 2 ^ 16,
      loaderId = class_loader_trace_id ikh,
      klass_id = klass_trace_id ikh,
      has_hash = (hash_in \<noteq> None),
      has_original_hash = (is_transformed \<and> original_hash_in \<noteq> None),
      has_source = (reference = None \<and> source \<noteq> None),
      has_same_source = (reference \<noteq> None),
      original_hash = (case original_hash_in of Some h \<Rightarrow> (if is_transformed then h else []) | None \<Rightarrow> []),
      hash = (case hash_in of Some h \<Rightarrow> h | None \<Rightarrow> []),
      klass_name_length = name_length,
      klass_name = klass_symbol ikh,
      source_data = (case source of Some src \<Rightarrow> (if reference = None then src else []) | None \<Rightarrow> [])\<rparr>"

text \<open>
  \<^verbatim>\<open>CrsClassLoadMessage::post\<close>. \<open>data_offset\<close> is \<^verbatim>\<open>offset_of(CrsClassLoadMessage, _data)\<close>,
  a constant of the object layout. The placement-new stores the message at the address
  \<^verbatim>\<open>msg\<close> in the reserved space.
\<close>

definition previous_reference_of :: "nat \<Rightarrow> crs \<Rightarrow> nat option" where
  "previous_reference_of thread s =
     (case NativeMemory_reference_message CRS_MESSAGE_BACK_REFERENCE_CLASS_LOAD thread s of
        None \<Rightarrow> None
      | Some r \<Rightarrow>
          (case class_load_at (rs_mem (tlb_manager (memory s))) r of
             None \<Rightarrow> None
           | Some ref \<Rightarrow> if \<not> has_source ref then None else Some r))"

definition normalize_source :: "string option \<Rightarrow> string option" where
  "normalize_source source = (case source of Some src \<Rightarrow> (if src = [] then None else Some src) | None \<Rightarrow> None)"

definition is_new_reference_of :: "(nat \<Rightarrow> CrsMessage option) \<Rightarrow> string option \<Rightarrow> nat option \<Rightarrow> bool" where
  "is_new_reference_of mem source previous_reference =
     (case (source, previous_reference) of
        (Some src, Some r) \<Rightarrow>
          (case class_load_at mem r of Some ref \<Rightarrow> source_data ref \<noteq> src | None \<Rightarrow> True)
      | (Some src, None) \<Rightarrow> True
      | (None, r) \<Rightarrow> False)"

definition size_no_ref_of :: "nat \<Rightarrow> klass_info \<Rightarrow> nat" where
  "size_no_ref_of data_offset ikh = data_offset + length (klass_symbol ikh) + 1"

definition size_with_ref_of :: "nat \<Rightarrow> klass_info \<Rightarrow> string option \<Rightarrow> nat" where
  "size_with_ref_of data_offset ikh source =
     size_no_ref_of data_offset ikh + (case source of Some src \<Rightarrow> length src + 1 | None \<Rightarrow> 0)"

definition CrsClassLoadMessage_post ::
  "nat \<Rightarrow> klass_info \<Rightarrow> bool \<Rightarrow> nat list option \<Rightarrow> nat list option \<Rightarrow> string option \<Rightarrow> nat
     \<Rightarrow> bool \<Rightarrow> crs \<Rightarrow> crs" where
  "CrsClassLoadMessage_post data_offset ikh is_transformed original_hash_in hash_in source_in
       thread commit_memory s =
     (let previous_reference = previous_reference_of thread s;
          source = normalize_source source_in;
          is_new_reference =
            is_new_reference_of (rs_mem (tlb_manager (memory s))) source previous_reference;
          name_length = length (klass_symbol ikh);
          size_no_ref = size_no_ref_of data_offset ikh;
          size_with_ref = size_with_ref_of data_offset ikh source;
          size_in_bytes = (if is_new_reference then size_with_ref else size_no_ref)
      in case NativeMemory_alloc_reference CRS_MESSAGE_BACK_REFERENCE_CLASS_LOAD is_new_reference
                size_in_bytes size_with_ref thread commit_memory s of
           ((None, is_new_reference1), s1) \<Rightarrow> s1
         | ((Some msg, is_new_reference1), s1) \<Rightarrow>
             (let m = tlb_manager (memory s1);
                  message = CrsClassLoadMessage_new
                              (if is_new_reference1 then size_with_ref else size_in_bytes)
                              ikh is_transformed original_hash_in hash_in source
                              (if is_new_reference1 then None else previous_reference)
                              name_length
              in set_tlb_manager
                   (m\<lparr>rs_mem := (rs_mem m)(msg := Some (CRS_MESSAGE_CLASS_LOAD message))\<rparr>) s1))"

text \<open>\<^verbatim>\<open>CrsFirstCallMessage::post\<close>; \<open>sizeof_message\<close> is \<^verbatim>\<open>sizeof (CrsFirstCallMessage)\<close>.\<close>

definition CrsFirstCallMessage_post :: "nat \<Rightarrow> method_info \<Rightarrow> nat \<Rightarrow> bool \<Rightarrow> crs \<Rightarrow> crs" where
  "CrsFirstCallMessage_post sizeof_message method thread commit_memory s =
     (let method_name_length = length (method_symbol method);
          method_sig_length = length (signature_symbol method);
          size_in_bytes = method_name_length + method_sig_length + 1 + sizeof_message
      in case NativeMemory_alloc size_in_bytes thread commit_memory s of
           (None, s1) \<Rightarrow> s1
         | (Some msg, s1) \<Rightarrow>
             (let m = tlb_manager (memory s1);
                  message = \<lparr>fc_size = size_in_bytes mod 2 ^ 16,
                             holder_id = method_holder_trace_id method,
                             method_name_sig = method_symbol method @ signature_symbol method\<rparr>
              in set_tlb_manager
                   (m\<lparr>rs_mem := (rs_mem m)(msg := Some (CRS_MESSAGE_FIRST_CALL message))\<rparr>) s1))"

section \<open>Construction\<close>

text \<open>
  \<^verbatim>\<open>TLBManager::TLBManager(size)\<close>. \<open>page_size\<close> is \<^verbatim>\<open>os::vm_page_size()\<close>, \<open>reserved_base\<close>
  the address of the space that \<^verbatim>\<open>ReservedSpace\<close> obtains, \<open>commit_memory\<close> the answer of
  \<^verbatim>\<open>os::commit_memory\<close>, and \<open>raw\<close> the array \<^verbatim>\<open>new TLB[_buffers_count]\<close> as allocated:
  \<^verbatim>\<open>TLB()\<close> clears \<^verbatim>\<open>_owner\<close> and \<^verbatim>\<open>_base\<close> and leaves the other fields as they are. When
  the commit fails the constructor returns early, with no base set and all lists empty.
  \<open>TLBManager_sizes\<close> is the arithmetic at its head: the values of \<^verbatim>\<open>_buffer_size\<close>,
  \<^verbatim>\<open>_buffers_count\<close> and \<^verbatim>\<open>_num_committed\<close>.
\<close>

definition TLBManager_sizes :: "nat \<Rightarrow> nat \<Rightarrow> nat \<times> nat \<times> nat" where
  "TLBManager_sizes size_in_bytes page_size =
     (let initialCommittedSizeEstimate = min (640 * 1024) size_in_bytes;
          desiredBufferSize = 8 * 1024;
          count0 = size_in_bytes div desiredBufferSize;
          count1 = (if count0 < 2 then 2 else count0);
          size1 = align_up (size_in_bytes div count1) page_size;
          bsize = (if 2 ^ 16 < size1 then 2 ^ 16 else size1);
          count = (if 2 ^ 16 < size1 then size_in_bytes div bsize else count1);
          committed = min (max 1 (initialCommittedSizeEstimate div bsize)) count
      in (bsize, count, committed))"

definition TLBManager_new ::
  "nat \<Rightarrow> nat \<Rightarrow> nat \<Rightarrow> bool \<Rightarrow> (nat \<Rightarrow> TLB) \<Rightarrow> (nat \<Rightarrow> CrsMessage option) \<Rightarrow> TLBManager" where
  "TLBManager_new size_in_bytes page_size reserved_base commit_memory raw mem =
     (case TLBManager_sizes size_in_bytes page_size of
        (bsize, count, committed) \<Rightarrow>
          (let area = (count * bsize) mod 2 ^ 64;
               m = \<lparr>free_list = [], leased_list = [], uncommitted_list = [],
                    buffers = (\<lambda>i. (raw i)\<lparr>base := 0, owner := None\<rparr>),
                    rs_base = reserved_base, rs_size = area, rs_mem = mem,
                    buffer_size = bsize, num_committed = int committed, buffers_count = count,
                    area_size = area, bytes_used = 0, not_finished = []\<rparr>
           in if \<not> commit_memory then m
              else m\<lparr>buffers := (\<lambda>i. if i < count
                                      then (raw i)\<lparr>base := reserved_base + i * bsize, owner := None\<rparr>
                                      else (raw i)\<lparr>base := 0, owner := None\<rparr>),
                     free_list := [0..<committed],
                     uncommitted_list := [committed..<count]\<rparr>))"

text \<open>\<^verbatim>\<open>NativeMemory::NativeMemory(size)\<close>; \<^verbatim>\<open>bytes_committed()\<close> is
  \<^verbatim>\<open>(uintx)_num_committed * _buffer_size\<close>.\<close>

definition bytes_committed :: "TLBManager \<Rightarrow> nat" where
  "bytes_committed m = (uintx_of_jint (num_committed m) * buffer_size m) mod 2 ^ 64"

definition NativeMemory_new ::
  "nat \<Rightarrow> nat \<Rightarrow> nat \<Rightarrow> bool \<Rightarrow> (nat \<Rightarrow> TLB) \<Rightarrow> (nat \<Rightarrow> CrsMessage option) \<Rightarrow> NativeMemory" where
  "NativeMemory_new size_in_bytes page_size reserved_base commit_memory raw mem =
     (let m = TLBManager_new size_in_bytes page_size reserved_base commit_memory raw mem
      in \<lparr>tlb_manager = m, previous_usage = bytes_committed m, overflow = False\<rparr>)"

section \<open>Predicates on states\<close>

text \<open>
  No buffer can be had for an allocation of \<open>size_in_bytes\<close> by \<open>thread\<close>: the thread holds
  no buffer with that much room, \<^verbatim>\<open>_free_list\<close> is empty, and \<^verbatim>\<open>_uncommitted_list\<close> is empty
  or its head cannot be committed.
\<close>

definition no_buffer_obtainable :: "nat \<Rightarrow> nat \<Rightarrow> bool \<Rightarrow> crs \<Rightarrow> bool" where
  "no_buffer_obtainable size_in_bytes thread commit_memory s =
     (let m = tlb_manager (memory s)
      in (case thread_buffer s thread of
            None \<Rightarrow> True
          | Some b \<Rightarrow> uintx_sub (buffer_size m) (pos (buffers m b)) < size_in_bytes)
         \<and> free_list m = []
         \<and> (uncommitted_list m = [] \<or> \<not> commit_memory))"

text \<open>
  The partition of the buffers at rest: \<^verbatim>\<open>_free_list\<close>, \<^verbatim>\<open>_leased_list\<close> and
  \<^verbatim>\<open>_uncommitted_list\<close> share no buffer and hold all of them, nothing is set aside in
  \<^verbatim>\<open>_not_finished\<close>, and \<^verbatim>\<open>_num_committed\<close> counts the free and the leased buffers.
\<close>

definition pool_invariant :: "TLBManager \<Rightarrow> bool" where
  "pool_invariant m =
     (distinct (free_list m @ leased_list m @ uncommitted_list m) \<and>
      set (free_list m) \<union> set (leased_list m) \<union> set (uncommitted_list m)
        = {0..<buffers_count m} \<and>
      not_finished m = [] \<and>
      num_committed m = int (length (free_list m) + length (leased_list m)) \<and>
      num_committed m \<le> int (buffers_count m))"

text \<open>
  The partition between two passes of a loop of \<^verbatim>\<open>flush_buffers\<close>: the buffers taken off
  \<^verbatim>\<open>_leased_list\<close> wait in \<^verbatim>\<open>_not_finished\<close> or in the local chain \<^verbatim>\<open>uncommitted\<close>, and
  \<^verbatim>\<open>_num_committed\<close> counts the free, the leased and the set-aside buffers.
\<close>

definition flush_partition :: "'w flush_frame \<Rightarrow> bool" where
  "flush_partition fr =
     (let m = mgr fr in
      distinct (free_list m @ leased_list m @ uncommitted_list m @ not_finished m
                  @ uncommitted fr) \<and>
      set (free_list m) \<union> set (leased_list m) \<union> set (uncommitted_list m)
        \<union> set (not_finished m) \<union> set (uncommitted fr) = {0..<buffers_count m} \<and>
      num_committed m
        = int (length (free_list m) + length (leased_list m) + length (not_finished m)))"

text \<open>The closure returns on every buffer that a flush of \<open>m\<close> hands to it: the released
  buffers of \<^verbatim>\<open>_leased_list\<close>.\<close>

definition closure_returns :: "'w TLBClosure \<Rightarrow> TLBManager \<Rightarrow> bool" where
  "closure_returns f m =
     (distinct (leased_list m) \<and>
      (\<forall>b \<in> set (leased_list m). owner (buffers m b) = None \<longrightarrow>
           (\<forall>w. f (rs_mem m) (buffers m b) w \<noteq> None)))"

section \<open>Example states\<close>

text \<open>A manager of two buffers of 8192 bytes at address 65536, the first committed and
  free, the second uncommitted, as the constructor leaves it for an area of 16384 bytes
  of which one buffer is committed.\<close>

definition example_tlb :: "nat \<Rightarrow> TLB" where
  "example_tlb i = \<lparr>pos = 0, base = 65536 + i * 8192, owner = None, reference_message = (\<lambda>r. None)\<rparr>"

definition example_manager :: TLBManager where
  "example_manager =
     \<lparr>free_list = [0], leased_list = [], uncommitted_list = [1],
      buffers = example_tlb, rs_base = 65536, rs_size = 16384, rs_mem = (\<lambda>p. None),
      buffer_size = 8192, num_committed = 1, buffers_count = 2, area_size = 16384,
      bytes_used = 0, not_finished = []\<rparr>"

definition example_crs :: crs where
  "example_crs =
     \<lparr>memory = \<lparr>tlb_manager = example_manager, previous_usage = 8192, overflow = False\<rparr>,
      thread_buffer = (\<lambda>t. None),
      managed = \<lparr>class_load_has_callback = True, first_call_has_callback = True, java_calls = []\<rparr>,
      tty = []\<rparr>"

text \<open>The same state with the overflow flag up.\<close>

definition example_overflowed :: crs where
  "example_overflowed = example_crs\<lparr>memory := (memory example_crs)\<lparr>overflow := True\<rparr>\<rparr>"

text \<open>Two answers of \<^verbatim>\<open>os::uncommit_memory\<close>: always yes, always no.\<close>

definition uncommit_succeeds :: "nat \<Rightarrow> bool" where
  "uncommit_succeeds k = True"

definition uncommit_fails :: "nat \<Rightarrow> bool" where
  "uncommit_fails k = False"

text \<open>Both buffers leased and full: buffer 0 by thread 1, holding one first-call message
  of 8192 bytes, buffer 1 by thread 2. Nothing is free and nothing is uncommitted.\<close>

definition example_full_tlb :: "nat \<Rightarrow> TLB" where
  "example_full_tlb i =
     \<lparr>pos = 8192, base = 65536 + i * 8192, owner = Some (i + 1), reference_message = (\<lambda>r. None)\<rparr>"

definition example_exhausted :: crs where
  "example_exhausted =
     \<lparr>memory =
        \<lparr>tlb_manager =
           \<lparr>free_list = [], leased_list = [1, 0], uncommitted_list = [],
            buffers = example_full_tlb, rs_base = 65536, rs_size = 16384,
            rs_mem = (\<lambda>p. if p = 65536 \<or> p = 73728
                           then Some (CRS_MESSAGE_FIRST_CALL
                                        \<lparr>fc_size = 8192, holder_id = 7, method_name_sig = ''run()V''\<rparr>)
                           else None),
            buffer_size = 8192, num_committed = 2, buffers_count = 2, area_size = 16384,
            bytes_used = 16384, not_finished = []\<rparr>,
         previous_usage = 16384, overflow = False\<rparr>,
      thread_buffer = (\<lambda>t. if t = 1 then Some 0 else if t = 2 then Some 1 else None),
      managed = \<lparr>class_load_has_callback = True, first_call_has_callback = True, java_calls = []\<rparr>,
      tty = []\<rparr>"

text \<open>Thread 1 has released its buffer of the exhausted pool.\<close>

definition example_released :: crs where
  "example_released = NativeMemory_release_thread_buffer 1 example_exhausted"

text \<open>The first pass of the loop over \<^verbatim>\<open>_leased_list\<close> in a flush of the exhausted pool.\<close>

definition example_mid_flush :: "managed_layer flush_frame loop_step" where
  "example_mid_flush =
     flush_leased_step TLBFlushClosure_tlb_do uncommit_fails
       (flush_enter 16384 (tlb_manager (memory example_exhausted)) (managed example_exhausted))"

section \<open>Evaluation\<close>

lemmas example_defs =
  example_overflowed_def example_crs_def example_manager_def example_tlb_def
  uncommit_succeeds_def uncommit_fails_def example_exhausted_def example_full_tlb_def
  example_released_def example_mid_flush_def NativeMemory_release_thread_buffer_def

lemmas model_defs =
  NativeMemory_alloc_def NativeMemory_alloc_reference_def ensure_def lease_buffer_def
  lease_buffer_finish_def CRSList_remove_def CRSList_add_def CRSList_add_items_def
  TLBManager_alloc_def TLB_alloc_def TLB_lease_def TLB_release_def TLB_set_reference_message_def
  set_tlb_manager_def align_up_def align_def uintx_add_def uintx_sub_def uintx_of_jint_def
  NativeMemory_flush_def flush_buffers_def flush_enter_def flush_leased_step_def
  flush_idle_step_def return_not_finished_def return_uncommitted_def uncommit_buffer_def
  next_target_def TLBFlushClosure_tlb_do_def flush_leased_loop.simps flush_idle_loop.simps
  MessageClosure_walk.simps Let_def

section \<open>Allocation failure and the flush report\<close>

lemma lease_buffer_None_iff:
  "fst (lease_buffer c t m) = None \<longleftrightarrow> free_list m = [] \<and> (uncommitted_list m = [] \<or> \<not> c)"
  by (auto simp: lease_buffer_def lease_buffer_finish_def CRSList_remove_def split: list.splits)

lemma ensure_None_iff:
  "fst (ensure (thread_buffer s t) n t c (tlb_manager (memory s))) = None
     \<longleftrightarrow> no_buffer_obtainable n t c s"
  by (auto simp: ensure_def no_buffer_obtainable_def lease_buffer_None_iff Let_def
           split: option.splits)

lemma alloc_fails:
  "overflow (memory s) \<or> no_buffer_obtainable n t c s \<Longrightarrow>
     fst (NativeMemory_alloc n t c s) = None \<and>
     overflow (memory (snd (NativeMemory_alloc n t c s)))"
  using ensure_None_iff[of s t n c]
  by (auto simp: NativeMemory_alloc_def Let_def set_tlb_manager_def
           split: prod.splits option.splits)

lemma alloc_reference_fails:
  "overflow (memory s) \<or> no_buffer_obtainable n t c s \<Longrightarrow>
     fst (fst (NativeMemory_alloc_reference r i n n' t c s)) = None \<and>
     overflow (memory (snd (NativeMemory_alloc_reference r i n n' t c s)))"
  using ensure_None_iff[of s t n c]
  by (auto simp: NativeMemory_alloc_reference_def Let_def set_tlb_manager_def
           split: prod.splits option.splits)

lemma flush_report:
  "NativeMemory_flush u s = Some s' \<Longrightarrow> overflow (memory s) \<Longrightarrow>
     \<not> overflow (memory s') \<and>
     tty s' = tty s @ [data_is_lost (bytes_used (tlb_manager (memory s)))
                                    (bytes_used (tlb_manager (memory s')))]"
  by (auto simp: NativeMemory_flush_def Let_def split: option.splits prod.splits if_splits)

lemma flush_clears_overflow:
  "NativeMemory_flush u s = Some s' \<Longrightarrow> \<not> overflow (memory s')"
  by (auto simp: NativeMemory_flush_def Let_def split: option.splits prod.splits if_splits)

lemma flush_passes_target:
  "NativeMemory_flush u s = Some s' \<Longrightarrow>
     flush_buffers TLBFlushClosure_tlb_do (next_target (memory s)) u (tlb_manager (memory s))
         (managed s)
       = Some (tlb_manager (memory s'), managed s') \<and>
     previous_usage (memory s') = bytes_used (tlb_manager (memory s))"
  by (auto simp: NativeMemory_flush_def Let_def split: option.splits prod.splits if_splits)

lemma flush_returns_iff:
  "NativeMemory_flush u s \<noteq> None \<longleftrightarrow>
   flush_buffers TLBFlushClosure_tlb_do (next_target (memory s)) u (tlb_manager (memory s))
       (managed s) \<noteq> None"
  by (auto simp: NativeMemory_flush_def Let_def split: option.splits prod.splits if_splits)

subsection \<open>A flush returns when its closure does\<close>

lemma flush_leased_step_not_Stuck:
  assumes "closure_returns f (mgr fr)"
  shows "flush_leased_step f u fr \<noteq> Stuck"
proof (cases "leased_list (mgr fr)")
  case Nil
  then show ?thesis
    by (simp add: flush_leased_step_def CRSList_remove_def)
next
  case (Cons b ll)
  show ?thesis
  proof (cases "owner (buffers (mgr fr) b)")
    case (Some thread)
    with Cons show ?thesis
      by (simp add: flush_leased_step_def CRSList_remove_def Let_def)
  next
    case None
    with assms Cons have "f (rs_mem (mgr fr)) (buffers (mgr fr) b) (world fr) \<noteq> None"
      by (simp add: closure_returns_def)
    then obtain t w where "f (rs_mem (mgr fr)) (buffers (mgr fr) b) (world fr) = Some (t, w)"
      by auto
    with Cons None show ?thesis
      by (simp add: flush_leased_step_def CRSList_remove_def uncommit_buffer_def Let_def)
  qed
qed

lemma flush_leased_step_closure_returns:
  "flush_leased_step f u fr = Continue fr' \<Longrightarrow> closure_returns f (mgr fr) \<Longrightarrow>
     closure_returns f (mgr fr')"
  by (auto simp: closure_returns_def flush_leased_step_def CRSList_remove_def CRSList_add_def
                 uncommit_buffer_def Let_def
           split: list.splits option.splits prod.splits if_splits bool.splits)

lemma flush_leased_loop_returns:
  "closure_returns f (mgr fr) \<Longrightarrow> flush_leased_loop f u fr \<noteq> None"
proof (induction f u fr rule: flush_leased_loop.induct)
  case (1 f u fr)
  show ?case
  proof (cases "flush_leased_step f u fr")
    case (Continue fr')
    with 1 show ?thesis
      by (subst flush_leased_loop.simps) (simp add: flush_leased_step_closure_returns)
  next
    case (Break fr')
    then show ?thesis by (subst flush_leased_loop.simps) simp
  next
    case Stuck
    with 1 show ?thesis
      by (simp add: flush_leased_step_not_Stuck)
  qed
qed

lemma flush_buffers_returns:
  assumes "closure_returns f m"
  shows "flush_buffers f g u m w \<noteq> None"
proof -
  from assms have "closure_returns f (mgr (flush_enter g m w))"
    by (simp add: flush_enter_def Let_def)
  then have "flush_leased_loop f u (flush_enter g m w) \<noteq> None"
    by (rule flush_leased_loop_returns)
  then show ?thesis
    by (auto simp: flush_buffers_def Let_def split: option.splits)
qed

lemma NativeMemory_flush_returns:
  "closure_returns TLBFlushClosure_tlb_do (tlb_manager (memory s)) \<Longrightarrow>
     \<exists>s'. NativeMemory_flush u s = Some s'"
  using flush_returns_iff[of u s] flush_buffers_returns[of TLBFlushClosure_tlb_do "tlb_manager (memory s)"]
  by auto

lemma overflow_alloc: "overflow (memory s) \<Longrightarrow> NativeMemory_alloc n t c s = (None, s)"
  by (simp add: NativeMemory_alloc_def)

lemma overflow_alloc_reference:
  "overflow (memory s) \<Longrightarrow> NativeMemory_alloc_reference r i n n' t c s = ((None, i), s)"
  by (simp add: NativeMemory_alloc_reference_def)

text \<open>
  C4. An allocation for which no buffer can be had (the overflow flag is already up, or the
  thread has no buffer with room, the free list is empty and no uncommitted buffer can be
  committed) returns \<^verbatim>\<open>NULL\<close> and leaves the overflow flag set, in both variants of
  \<^verbatim>\<open>NativeMemory::alloc\<close>. The next flush, which returns whenever its closure does, clears
  the flag and prints one "data is lost" line with the bytes used before and after it.
\<close>

theorem alloc_failure_sets_overflow_flush_reports:
  "(overflow (memory s) \<or> no_buffer_obtainable n t c s \<longrightarrow>
      fst (NativeMemory_alloc n t c s) = None \<and>
      overflow (memory (snd (NativeMemory_alloc n t c s))) \<and>
      fst (fst (NativeMemory_alloc_reference r i n n' t c s)) = None \<and>
      overflow (memory (snd (NativeMemory_alloc_reference r i n n' t c s)))) \<and>
   (overflow (memory s) \<and> closure_returns TLBFlushClosure_tlb_do (tlb_manager (memory s)) \<longrightarrow>
      (\<exists>s'. NativeMemory_flush u s = Some s' \<and> \<not> overflow (memory s') \<and>
            tty s' = tty s @ [data_is_lost (bytes_used (tlb_manager (memory s)))
                                           (bytes_used (tlb_manager (memory s')))]))"
proof (intro conjI impI)
  assume a: "overflow (memory s) \<or> no_buffer_obtainable n t c s"
  from alloc_fails[OF a] show "fst (NativeMemory_alloc n t c s) = None"
    and "overflow (memory (snd (NativeMemory_alloc n t c s)))" by simp_all
  from alloc_reference_fails[OF a]
  show "fst (fst (NativeMemory_alloc_reference r i n n' t c s)) = None"
    and "overflow (memory (snd (NativeMemory_alloc_reference r i n n' t c s)))" by simp_all
next
  assume b: "overflow (memory s) \<and> closure_returns TLBFlushClosure_tlb_do (tlb_manager (memory s))"
  then obtain s' where s': "NativeMemory_flush u s = Some s'"
    using NativeMemory_flush_returns by blast
  with b flush_report[OF s'] show "\<exists>s'. NativeMemory_flush u s = Some s' \<and> \<not> overflow (memory s') \<and>
            tty s' = tty s @ [data_is_lost (bytes_used (tlb_manager (memory s)))
                                           (bytes_used (tlb_manager (memory s')))]"
    by simp
qed

theorem alloc_failure_sets_overflow_flush_reports_witness:
  "no_buffer_obtainable 100 1 True example_exhausted \<and>
   fst (NativeMemory_alloc 100 1 True example_exhausted) = None \<and>
   overflow (memory (snd (NativeMemory_alloc 100 1 True example_exhausted))) \<and>
   (\<exists>s'. NativeMemory_flush uncommit_fails (snd (NativeMemory_alloc 100 1 True example_exhausted)) = Some s' \<and>
         \<not> overflow (memory s') \<and> tty s' = [data_is_lost 16384 8192])"
proof -
  let ?s1 = "snd (NativeMemory_alloc 100 1 True example_exhausted)"
  have h1: "no_buffer_obtainable 100 1 True example_exhausted"
    by (simp add: no_buffer_obtainable_def example_defs uintx_sub_def)
  from h1 alloc_failure_sets_overflow_flush_reports
         [of example_exhausted 100 1 True CRS_MESSAGE_BACK_REFERENCE_CLASS_LOAD False 100 uncommit_fails]
  have a: "fst (NativeMemory_alloc 100 1 True example_exhausted) = None"
    and b: "overflow (memory ?s1)" by blast+
  have ll: "leased_list (tlb_manager (memory ?s1)) = [1, 0]"
    by (simp add: example_defs model_defs)
  have o1: "owner (buffers (tlb_manager (memory ?s1)) 1) = Some 2"
    by (simp add: example_defs model_defs)
  have w: "TLBFlushClosure_tlb_do (rs_mem (tlb_manager (memory ?s1)))
              (buffers (tlb_manager (memory ?s1)) 0) w \<noteq> None" for w
    by (simp add: example_defs model_defs CrsFirstCallMessage_process_def)
  have h2: "closure_returns TLBFlushClosure_tlb_do (tlb_manager (memory ?s1))"
    using ll o1 w unfolding closure_returns_def by simp
  from b h2 alloc_failure_sets_overflow_flush_reports
         [of ?s1 100 1 True CRS_MESSAGE_BACK_REFERENCE_CLASS_LOAD False 100 uncommit_fails]
  obtain s' where s': "NativeMemory_flush uncommit_fails ?s1 = Some s'" "\<not> overflow (memory s')"
     "tty s' = tty ?s1 @ [data_is_lost (bytes_used (tlb_manager (memory ?s1))) (bytes_used (tlb_manager (memory s')))]"
    by blast
  have t0: "tty ?s1 = []" "bytes_used (tlb_manager (memory ?s1)) = 16384"
    by (simp_all add: example_defs model_defs)
  have "map_option (\<lambda>s. bytes_used (tlb_manager (memory s))) (NativeMemory_flush uncommit_fails ?s1) = Some 8192"
    by (simp add: example_defs model_defs CrsFirstCallMessage_process_def)
  with s' have "bytes_used (tlb_manager (memory s')) = 8192" by simp
  with s' t0 h1 a b show ?thesis by simp
qed

section \<open>Dropping events while the overflow flag is up\<close>

text \<open>
  C10. While the overflow flag is set, both variants of \<^verbatim>\<open>NativeMemory::alloc\<close> return
  \<^verbatim>\<open>NULL\<close> at once and leave the whole state as it was (no buffer is ensured or leased,
  nothing is written, \<^verbatim>\<open>*is_reference\<close> keeps its value), whatever room the pool has, so
  a class-load or first-call message posted then is dropped; every flush that returns
  leaves the flag cleared, and a flush returns whenever its closure does.
\<close>

theorem overflow_drops_until_flush:
  "overflow (memory s) \<Longrightarrow>
     NativeMemory_alloc_reference r i n n' t c s = ((None, i), s) \<and>
     NativeMemory_alloc n t c s = (None, s) \<and>
     CrsClassLoadMessage_post d k tr oh h src t c s = s \<and>
     CrsFirstCallMessage_post d' mth t c s = s \<and>
     (\<forall>s'. NativeMemory_flush u s = Some s' \<longrightarrow> \<not> overflow (memory s')) \<and>
     (closure_returns TLBFlushClosure_tlb_do (tlb_manager (memory s)) \<longrightarrow>
        (\<exists>s'. NativeMemory_flush u s = Some s'))"
  by (simp add: overflow_alloc overflow_alloc_reference CrsClassLoadMessage_post_def
        CrsFirstCallMessage_post_def Let_def flush_clears_overflow NativeMemory_flush_returns)

theorem overflow_drops_until_flush_witness:
  "overflow (memory example_overflowed) \<and>
   free_list (tlb_manager (memory example_overflowed)) = [0] \<and>
   NativeMemory_alloc 100 1 True example_overflowed = (None, example_overflowed) \<and>
   NativeMemory_alloc_reference CRS_MESSAGE_BACK_REFERENCE_CLASS_LOAD False 100 120 1 True
       example_overflowed = ((None, False), example_overflowed) \<and>
   (\<exists>s'. NativeMemory_flush uncommit_fails example_overflowed = Some s' \<and>
         \<not> overflow (memory s'))"
proof -
  have h: "overflow (memory example_overflowed)"
    by (simp add: example_defs)
  have f: "free_list (tlb_manager (memory example_overflowed)) = [0]"
    by (simp add: example_defs)
  have cr: "closure_returns TLBFlushClosure_tlb_do (tlb_manager (memory example_overflowed))"
    by (simp add: closure_returns_def example_defs)
  from overflow_drops_until_flush
         [OF h, of CRS_MESSAGE_BACK_REFERENCE_CLASS_LOAD False 100 120 1 True _ _ _ _ _ _ _ _
            uncommit_fails] cr h f
  show ?thesis by blast
qed

section \<open>The committed-memory target\<close>

text \<open>
  C6, as the spec states it, fails: the flush stores in \<^verbatim>\<open>_previous_usage\<close> the bytes in use
  when it starts, not the midpoint it computes. In the example state (8192 bytes committed
  at construction, nothing in use) the target is 4096 and the value stored is 0.
\<close>

theorem flush_stores_usage_not_midpoint:
  "NativeMemory_flush uncommit_succeeds example_crs \<noteq> None \<and>
   next_target (memory example_crs) = 4096 \<and>
   previous_usage (memory (the (NativeMemory_flush uncommit_succeeds example_crs))) = 0"
  by (simp add: example_defs model_defs)

text \<open>
  C6, amended. Every flush computes the target \<open>(_previous_usage + bytes_used) / 2\<close>, exact
  when the sum fits \<^verbatim>\<open>uintx\<close>, and passes it to \<^verbatim>\<open>flush_buffers\<close>; what it stores in
  \<^verbatim>\<open>_previous_usage\<close> is the number of bytes in use when it starts, which is what the next
  flush averages with its own usage. The flush returns whenever its closure does.
\<close>

theorem flush_target_is_midpoint_of_usages:
  "next_target (memory s) =
     ((previous_usage (memory s) + bytes_used (tlb_manager (memory s))) mod 2 ^ 64) div 2 \<and>
   (previous_usage (memory s) + bytes_used (tlb_manager (memory s)) < 2 ^ 64 \<longrightarrow>
      next_target (memory s) =
        (previous_usage (memory s) + bytes_used (tlb_manager (memory s))) div 2) \<and>
   (\<forall>s'. NativeMemory_flush u s = Some s' \<longrightarrow>
      flush_buffers TLBFlushClosure_tlb_do (next_target (memory s)) u (tlb_manager (memory s))
          (managed s) = Some (tlb_manager (memory s'), managed s') \<and>
      previous_usage (memory s') = bytes_used (tlb_manager (memory s))) \<and>
   (closure_returns TLBFlushClosure_tlb_do (tlb_manager (memory s)) \<longrightarrow>
      (\<exists>s'. NativeMemory_flush u s = Some s'))"
proof (intro conjI allI impI)
  show "next_target (memory s) =
     ((previous_usage (memory s) + bytes_used (tlb_manager (memory s))) mod 2 ^ 64) div 2"
    by (simp add: next_target_def uintx_add_def)
  show "next_target (memory s) =
        (previous_usage (memory s) + bytes_used (tlb_manager (memory s))) div 2"
    if "previous_usage (memory s) + bytes_used (tlb_manager (memory s)) < 2 ^ 64"
    using that by (simp add: next_target_def uintx_add_def)
  show "flush_buffers TLBFlushClosure_tlb_do (next_target (memory s)) u (tlb_manager (memory s))
          (managed s) = Some (tlb_manager (memory s'), managed s')"
    if "NativeMemory_flush u s = Some s'" for s'
    using flush_passes_target[OF that] by simp
  show "previous_usage (memory s') = bytes_used (tlb_manager (memory s))"
    if "NativeMemory_flush u s = Some s'" for s'
    using flush_passes_target[OF that] by simp
  show "\<exists>s'. NativeMemory_flush u s = Some s'"
    if "closure_returns TLBFlushClosure_tlb_do (tlb_manager (memory s))"
    using that by (rule NativeMemory_flush_returns)
qed

theorem flush_target_is_midpoint_of_usages_witness:
  "previous_usage (memory example_exhausted) + bytes_used (tlb_manager (memory example_exhausted))
     < 2 ^ 64 \<and>
   next_target (memory example_exhausted) = 16384 \<and>
   closure_returns TLBFlushClosure_tlb_do (tlb_manager (memory example_exhausted)) \<and>
   (\<exists>s'. NativeMemory_flush uncommit_fails example_exhausted = Some s' \<and>
         flush_buffers TLBFlushClosure_tlb_do 16384 uncommit_fails
             (tlb_manager (memory example_exhausted)) (managed example_exhausted)
           = Some (tlb_manager (memory s'), managed s') \<and>
         previous_usage (memory s') = 16384)"
proof -
  have h1: "previous_usage (memory example_exhausted)
              + bytes_used (tlb_manager (memory example_exhausted)) < 2 ^ 64"
    by (simp add: example_defs)
  have v: "previous_usage (memory example_exhausted) = 16384"
    "bytes_used (tlb_manager (memory example_exhausted)) = 16384"
    by (simp_all add: example_defs)
  have h2: "closure_returns TLBFlushClosure_tlb_do (tlb_manager (memory example_exhausted))"
    by (simp add: closure_returns_def example_defs)
  from flush_target_is_midpoint_of_usages[of example_exhausted uncommit_fails] h1 h2 v
  show ?thesis by auto
qed

section \<open>The partition of the buffers\<close>

lemma distinct_card_le:
  "distinct (xs @ ys @ zs) \<Longrightarrow> set xs \<union> set ys \<union> set zs = {0..<n} \<Longrightarrow> length xs + length ys + length zs = n"
proof -
  assume d: "distinct (xs @ ys @ zs)" and s: "set xs \<union> set ys \<union> set zs = {0..<n}"
  from d have "card (set (xs @ ys @ zs)) = length (xs @ ys @ zs)" by (rule distinct_card)
  moreover have "set (xs @ ys @ zs) = {0..<n}" using s by auto
  ultimately show ?thesis by simp
qed

lemma lease_buffer_invariant:
  "pool_invariant m \<Longrightarrow> pool_invariant (snd (lease_buffer c t m))"
proof -
  assume inv: "pool_invariant m"
  then have len: "length (free_list m) + length (leased_list m) + length (uncommitted_list m) = buffers_count m"
    by (simp add: pool_invariant_def distinct_card_le)
  show ?thesis
  proof (cases "free_list m")
    case (Cons b fl)
    with inv show ?thesis
      by (auto simp: pool_invariant_def lease_buffer_def lease_buffer_finish_def CRSList_remove_def CRSList_add_def)
  next
    case Nil
    show ?thesis
    proof (cases "uncommitted_list m")
      case Nil
      with \<open>free_list m = []\<close> inv show ?thesis
        by (simp add: pool_invariant_def lease_buffer_def CRSList_remove_def)
    next
      case (Cons b ul)
      with \<open>free_list m = []\<close> inv len show ?thesis
        by (auto simp: pool_invariant_def lease_buffer_def lease_buffer_finish_def CRSList_remove_def CRSList_add_def)
    qed
  qed
qed

lemma pool_invariant_buffers_update:
  "pool_invariant (m\<lparr>buffers := bs\<rparr>) = pool_invariant m"
  by (simp add: pool_invariant_def)

lemma ensure_invariant:
  "pool_invariant m \<Longrightarrow> pool_invariant (snd (ensure b n t c m))"
  by (auto simp: ensure_def lease_buffer_invariant pool_invariant_buffers_update split: option.splits)

lemma alloc_invariant:
  "pool_invariant m \<Longrightarrow> pool_invariant (snd (TLBManager_alloc b n m))"
  by (auto simp: TLBManager_alloc_def pool_invariant_buffers_update split: option.splits prod.splits)

lemma flush_enter_partition:
  "pool_invariant m \<Longrightarrow> flush_partition (flush_enter g m w)"
  by (auto simp: pool_invariant_def flush_partition_def flush_enter_def Let_def)

lemma flush_leased_step_partition:
  "flush_leased_step f u fr = Continue fr' \<Longrightarrow> flush_partition fr \<Longrightarrow> flush_partition fr'"
  by (auto simp: flush_partition_def flush_leased_step_def CRSList_remove_def CRSList_add_def
                 uncommit_buffer_def Let_def
           split: list.splits option.splits prod.splits if_splits bool.splits)


lemma flush_leased_loop_partition:
  "flush_leased_loop f u fr = Some fr' \<Longrightarrow> flush_partition fr \<Longrightarrow> flush_partition fr'"
proof (induction f u fr rule: flush_leased_loop.induct)
  case (1 f u fr)
  show ?case
  proof (cases "flush_leased_step f u fr")
    case (Continue fr1)
    with "1.prems" have "flush_leased_loop f u fr1 = Some fr'"
      by (subst (asm) flush_leased_loop.simps) simp
    moreover from Continue "1.prems" have "flush_partition fr1"
      by (simp add: flush_leased_step_partition)
    ultimately show ?thesis using "1.IH" Continue by simp
  next
    case (Break fr1)
    then have "fr1 = fr"
      by (auto simp: flush_leased_step_def CRSList_remove_def uncommit_buffer_def Let_def
               split: list.splits option.splits prod.splits if_splits bool.splits)
    with Break "1.prems" show ?thesis
      by (subst (asm) flush_leased_loop.simps) simp
  next
    case Stuck
    with "1.prems" show ?thesis
      by (subst (asm) flush_leased_loop.simps) simp
  qed
qed

lemma return_not_finished_partition:
  "flush_partition fr \<Longrightarrow>
     flush_partition (return_not_finished fr) \<and> not_finished (mgr (return_not_finished fr)) = []"
  by (auto simp: flush_partition_def return_not_finished_def CRSList_add_items_def Let_def)

lemma flush_idle_step_Continue:
  "flush_idle_step u fr = Continue fr' \<Longrightarrow> flush_partition fr \<Longrightarrow>
     flush_partition fr' \<and> not_finished (mgr fr') = not_finished (mgr fr) \<and>
     os_calls fr' = os_calls fr + 1"
  by (auto simp: flush_partition_def flush_idle_step_def CRSList_remove_def uncommit_buffer_def Let_def
           split: list.splits option.splits prod.splits if_splits bool.splits)

lemma flush_idle_step_Break:
  "flush_idle_step u fr = Break fr' \<Longrightarrow> u (os_calls fr) \<Longrightarrow> fr' = fr"
  by (auto simp: flush_idle_step_def CRSList_remove_def uncommit_buffer_def Let_def
           split: list.splits option.splits prod.splits if_splits bool.splits)

lemma flush_idle_loop_partition:
  "\<forall>k\<ge>os_calls fr. u k \<Longrightarrow> flush_partition fr \<Longrightarrow> not_finished (mgr fr) = [] \<Longrightarrow>
     flush_partition (flush_idle_loop u fr) \<and> not_finished (mgr (flush_idle_loop u fr)) = []"
proof (induction u fr rule: flush_idle_loop.induct)
  case (1 u fr)
  show ?case
  proof (cases "flush_idle_step u fr")
    case (Continue fr1)
    from flush_idle_step_Continue[OF Continue "1.prems"(2)] "1.prems"
    have "\<forall>k\<ge>os_calls fr1. u k" "flush_partition fr1" "not_finished (mgr fr1) = []"
      by auto
    moreover have "flush_idle_loop u fr = flush_idle_loop u fr1"
      using Continue by (subst flush_idle_loop.simps) simp
    ultimately show ?thesis using "1.IH"[OF Continue] by simp
  next
    case (Break fr1)
    with "1.prems" have "fr1 = fr"
      by (auto dest: flush_idle_step_Break)
    moreover have "flush_idle_loop u fr = fr1"
      using Break by (subst flush_idle_loop.simps) simp
    ultimately show ?thesis using "1.prems" by simp
  next
    case Stuck
    then show ?thesis by (simp add: flush_idle_step_not_Stuck)
  qed
qed

lemma return_uncommitted_invariant:
  assumes "flush_partition fr" "not_finished (mgr fr) = []"
  shows "pool_invariant (mgr (return_uncommitted fr))"
proof -
  let ?m = "mgr fr"
  from assms have d: "distinct (free_list ?m @ leased_list ?m @ (uncommitted fr @ uncommitted_list ?m))"
    and s: "set (free_list ?m) \<union> set (leased_list ?m) \<union> set (uncommitted fr @ uncommitted_list ?m)
              = {0..<buffers_count ?m}"
    and n: "num_committed ?m = int (length (free_list ?m) + length (leased_list ?m))"
    by (auto simp: flush_partition_def Let_def)
  from distinct_card_le[OF d s]
  have "length (free_list ?m) + length (leased_list ?m) \<le> buffers_count ?m" by simp
  with d s n assms(2) show ?thesis
    by (auto simp: pool_invariant_def return_uncommitted_def CRSList_add_items_def)
qed

lemma flush_buffers_invariant:
  assumes "pool_invariant m"
    and "flush_leased_loop f u (flush_enter g m w) = Some fr1"
    and "\<forall>k\<ge>os_calls fr1. u k"
  shows "\<exists>m' w'. flush_buffers f g u m w = Some (m', w') \<and> pool_invariant m'"
proof -
  from assms(1) have "flush_partition (flush_enter g m w)" by (rule flush_enter_partition)
  with assms(2) have p1: "flush_partition fr1" by (rule flush_leased_loop_partition)
  let ?fr2 = "return_not_finished fr1"
  from return_not_finished_partition[OF p1]
  have p2: "flush_partition ?fr2" "not_finished (mgr ?fr2) = []" by simp_all
  have "os_calls ?fr2 = os_calls fr1" by (simp add: return_not_finished_def)
  with assms(3) have "\<forall>k\<ge>os_calls ?fr2. u k" by simp
  from flush_idle_loop_partition[OF this p2]
  have "pool_invariant (mgr (return_uncommitted (flush_idle_loop u ?fr2)))"
    by (simp add: return_uncommitted_invariant)
  with assms(2) show ?thesis
    by (simp add: flush_buffers_def Let_def)
qed

lemma flush_idle_step_flush_partition:
  "flush_idle_step u fr = Continue fr' \<Longrightarrow> flush_partition fr \<Longrightarrow> flush_partition fr'"
  by (simp add: flush_idle_step_Continue)

lemma TLBManager_sizes_committed:
  "TLBManager_sizes sz pg = (bsize, n, c) \<Longrightarrow> c \<le> n"
  unfolding TLBManager_sizes_def Let_def
  apply (simp only: prod.inject)
  apply (elim conjE)
  apply (drule sym[of _ c])
  apply (drule sym[of _ n])
  apply (simp only:)
  done

lemma TLBManager_new_invariant:
  "pool_invariant (TLBManager_new sz pg rb True raw mem)"
proof -
  obtain bsize n c where g: "TLBManager_sizes sz pg = (bsize, n, c)"
    by (cases "TLBManager_sizes sz pg") auto
  then have "c \<le> n" by (rule TLBManager_sizes_committed)
  then show ?thesis
    by (auto simp: pool_invariant_def TLBManager_new_def g Let_def)
qed

text \<open>
  C1, as the spec states it, fails in the middle of a flush: a buffer taken off
  \<^verbatim>\<open>_leased_list\<close> whose owner is live waits in \<^verbatim>\<open>_not_finished\<close> until the loop is over. After
  the first pass over the exhausted pool, buffer 1 is in none of the three lists.
\<close>

theorem mid_flush_buffer_in_no_list:
  "pool_invariant (tlb_manager (memory example_exhausted)) \<and>
   is_Continue example_mid_flush \<and>
   1 \<notin> set (free_list (mgr (frame_of example_mid_flush)))
        \<union> set (leased_list (mgr (frame_of example_mid_flush)))
        \<union> set (uncommitted_list (mgr (frame_of example_mid_flush))) \<and>
   not_finished (mgr (frame_of example_mid_flush)) = [1] \<and>
   \<not> pool_invariant (mgr (frame_of example_mid_flush))"
  by (auto simp add: pool_invariant_def example_defs model_defs)

text \<open>
  C1, amended. At rest, that is before and after each operation, the three lists share no
  buffer and together hold every buffer, and \<^verbatim>\<open>_num_committed\<close> is the number of free and
  leased buffers and at most \<^verbatim>\<open>_buffers_count\<close>: the constructor establishes this, and
  \<^verbatim>\<open>lease_buffer\<close>, \<^verbatim>\<open>ensure\<close> and \<^verbatim>\<open>alloc\<close> keep it. \<^verbatim>\<open>flush_buffers\<close> keeps it provided
  \<^verbatim>\<open>os::uncommit_memory\<close> refuses no idle buffer in its last loop. Within a flush the
  partition is one of five parts: between two passes of either loop, each buffer is in
  exactly one of the three lists, \<^verbatim>\<open>_not_finished\<close> and the local chain of buffers being
  uncommitted, and \<^verbatim>\<open>_num_committed\<close> counts the free, leased and set-aside buffers.
\<close>

theorem pool_partition_at_rest:
  "pool_invariant (TLBManager_new sz pg rb True raw mem) \<and>
   (pool_invariant m \<longrightarrow>
      pool_invariant (snd (lease_buffer c t m)) \<and>
      pool_invariant (snd (ensure b n t c m)) \<and>
      pool_invariant (snd (TLBManager_alloc b n m)) \<and>
      flush_partition (flush_enter g m w) \<and>
      (\<forall>fr1. flush_leased_loop f u (flush_enter g m w) = Some fr1 \<longrightarrow>
         flush_partition fr1 \<and>
         ((\<forall>k\<ge>os_calls fr1. u k) \<longrightarrow>
            (\<exists>m' w'. flush_buffers f g u m w = Some (m', w') \<and> pool_invariant m')))) \<and>
   (\<forall>fr fr'. flush_partition fr \<and>
       (flush_leased_step f u fr = Continue fr' \<or> flush_idle_step u fr = Continue fr') \<longrightarrow>
       flush_partition fr')"
proof (intro conjI impI allI)
  show "pool_invariant (TLBManager_new sz pg rb True raw mem)"
    by (rule TLBManager_new_invariant)
next
  assume inv: "pool_invariant m"
  then show "pool_invariant (snd (lease_buffer c t m))" by (rule lease_buffer_invariant)
  from inv show "pool_invariant (snd (ensure b n t c m))" by (rule ensure_invariant)
  from inv show "pool_invariant (snd (TLBManager_alloc b n m))" by (rule alloc_invariant)
  from inv show "flush_partition (flush_enter g m w)" by (rule flush_enter_partition)
next
  fix fr1 assume inv: "pool_invariant m"
    and l: "flush_leased_loop f u (flush_enter g m w) = Some fr1"
  from l flush_enter_partition[OF inv] show "flush_partition fr1"
    by (rule flush_leased_loop_partition)
next
  fix fr1 assume inv: "pool_invariant m"
    and l: "flush_leased_loop f u (flush_enter g m w) = Some fr1"
    and u: "\<forall>k\<ge>os_calls fr1. u k"
  then show "\<exists>m' w'. flush_buffers f g u m w = Some (m', w') \<and> pool_invariant m'"
    by (rule flush_buffers_invariant)
next
  fix fr fr'
  assume "flush_partition fr \<and>
       (flush_leased_step f u fr = Continue fr' \<or> flush_idle_step u fr = Continue fr')"
  then show "flush_partition fr'"
    using flush_leased_step_partition flush_idle_step_flush_partition by blast
qed

theorem pool_partition_at_rest_witness:
  "pool_invariant (tlb_manager (memory example_released)) \<and>
   pool_invariant (snd (lease_buffer True 2 (tlb_manager (memory example_released)))) \<and>
   pool_invariant (snd (ensure (Some 1) 100 2 True (tlb_manager (memory example_released)))) \<and>
   (\<exists>fr1. flush_leased_loop TLBFlushClosure_tlb_do uncommit_succeeds
            (flush_enter 0 (tlb_manager (memory example_released)) (managed example_released))
            = Some fr1 \<and> flush_partition fr1 \<and> uncommitted fr1 = [0]) \<and>
   (\<exists>m' w'. flush_buffers TLBFlushClosure_tlb_do 0 uncommit_succeeds
              (tlb_manager (memory example_released)) (managed example_released) = Some (m', w') \<and>
            pool_invariant m')"
proof -
  let ?m = "tlb_manager (memory example_released)"
  let ?w = "managed example_released"
  have inv: "pool_invariant ?m"
    by (auto simp add: pool_invariant_def example_defs model_defs)
  have "\<exists>fr1. flush_leased_loop TLBFlushClosure_tlb_do uncommit_succeeds (flush_enter 0 ?m ?w) = Some fr1
           \<and> os_calls fr1 = 1 \<and> uncommitted fr1 = [0]"
    by (simp add: example_defs model_defs CrsFirstCallMessage_process_def)
  then obtain fr1 where l: "flush_leased_loop TLBFlushClosure_tlb_do uncommit_succeeds (flush_enter 0 ?m ?w) = Some fr1"
    and u0: "uncommitted fr1 = [0]" by blast
  have u: "\<forall>k\<ge>os_calls fr1. uncommit_succeeds k"
    by (simp add: uncommit_succeeds_def)
  note T = pool_partition_at_rest[of _ _ _ _ _ ?m True 2 "Some 1" 100 0 ?w TLBFlushClosure_tlb_do
             uncommit_succeeds]
  from T inv have a: "pool_invariant (snd (lease_buffer True 2 ?m))"
    and b: "pool_invariant (snd (ensure (Some 1) 100 2 True ?m))"
    and d: "\<forall>fr1. flush_leased_loop TLBFlushClosure_tlb_do uncommit_succeeds (flush_enter 0 ?m ?w)
                  = Some fr1 \<longrightarrow>
              flush_partition fr1 \<and>
              ((\<forall>k\<ge>os_calls fr1. uncommit_succeeds k) \<longrightarrow>
                 (\<exists>m' w'. flush_buffers TLBFlushClosure_tlb_do 0 uncommit_succeeds ?m ?w = Some (m', w')
                     \<and> pool_invariant m'))"
    by blast+
  from d l u have e: "flush_partition fr1"
    and f: "\<exists>m' w'. flush_buffers TLBFlushClosure_tlb_do 0 uncommit_succeeds ?m ?w = Some (m', w')
                     \<and> pool_invariant m'"
    by blast+
  from l e u0 have "\<exists>fr1. flush_leased_loop TLBFlushClosure_tlb_do uncommit_succeeds
            (flush_enter 0 ?m ?w) = Some fr1 \<and> flush_partition fr1 \<and> uncommitted fr1 = [0]"
    by blast
  with inv a b f show ?thesis by blast
qed

section \<open>What a flush does with each buffer\<close>

text \<open>
  C2. The flush does not leave an idle buffer on \<^verbatim>\<open>_free_list\<close> when its uncommit fails.
  In the example state (one committed buffer, free; one uncommitted; nothing in use) the
  target is 4096 bytes, so one buffer is to be uncommitted; the last loop takes buffer 0
  off \<^verbatim>\<open>_free_list\<close>, \<^verbatim>\<open>os::uncommit_memory\<close> refuses, and the loop is left with the buffer
  in no list while \<^verbatim>\<open>_num_committed\<close> still counts it.
\<close>

theorem flush_loses_idle_buffer_when_uncommit_fails:
  "pool_invariant (tlb_manager (memory example_crs)) \<and>
   free_list (tlb_manager (memory example_crs)) = [0] \<and>
   NativeMemory_flush uncommit_fails example_crs \<noteq> None \<and>
   free_list (tlb_manager (memory (the (NativeMemory_flush uncommit_fails example_crs)))) = [] \<and>
   leased_list (tlb_manager (memory (the (NativeMemory_flush uncommit_fails example_crs)))) = [] \<and>
   uncommitted_list (tlb_manager (memory (the (NativeMemory_flush uncommit_fails example_crs)))) = [1] \<and>
   num_committed (tlb_manager (memory (the (NativeMemory_flush uncommit_fails example_crs)))) = 1 \<and>
   \<not> pool_invariant (tlb_manager (memory (the (NativeMemory_flush uncommit_fails example_crs))))"
  by (auto simp add: pool_invariant_def example_defs model_defs)

end
